theory Spec2Isabelle
  imports Complex_Main "HOL-Library.Log_Nat"
begin

section \<open>JavaScript numbers\<close>

text \<open>
  The amounts of the quote forms are JavaScript numbers, that is IEEE 754 binary64
  values: \<open>NaN\<close>, the two infinities, or a finite value. A finite value is held as the
  rational it denotes. The two zeros are one value here (they are equal for \<open>===\<close>, both
  are falsy, and both print as \<open>0\<close>).
\<close>

datatype number = NaN | Infinity | NegInfinity | Num rat

text \<open>
  Rounding to an integer, to nearest, ties to even.
\<close>

definition round_ties_even :: "rat \<Rightarrow> int" where
  "round_ties_even y =
     (let n = \<lfloor>y\<rfloor>; d = y - of_int n
      in if d < 1 / 2 then n else if 1 / 2 < d then n + 1 else if even n then n else n + 1)"

text \<open>
  The binary exponent of a positive rational \<open>x\<close>: the \<open>e\<close> with
  \<open>2 ^ e \<le> x < 2 ^ (e + 1)\<close>, found from the bit lengths of numerator and denominator.
\<close>

definition ilog2 :: "rat \<Rightarrow> int" where
  "ilog2 x =
     (let (p, q) = quotient_of x; k = bitlen p - bitlen q
      in if 2 powi k \<le> x then k else k - 1)"

text \<open>
  The binary64 value of an exact result \<open>x\<close>, in the default rounding mode: \<open>x\<close> is
  rounded to a multiple of the unit in the last place of its binade (53 significant bits;
  below \<open>2 ^ (- 1022)\<close> the unit stays \<open>2 ^ (- 1074)\<close>, the subnormal range), and a
  result that reaches \<open>2 ^ 1024\<close> is the infinity of its sign.
\<close>

definition fl :: "rat \<Rightarrow> number" where
  "fl x =
     (if x = 0 then Num 0
      else
        let e = max (ilog2 \<bar>x\<bar>) (- 1022);
            u = 2 powi (e - 52);
            r = of_int (round_ties_even (x / u)) * u
        in if 2 ^ 1024 \<le> \<bar>r\<bar> then (if 0 < x then Infinity else NegInfinity) else Num r)"

text \<open>
  The literal \<open>0.1\<close> is the double nearest to one tenth,
  \<open>3602879701896397 / 2 ^ 55\<close>.
\<close>

definition tenth :: rat where
  "tenth = 3602879701896397 / 36028797018963968"

text \<open>
  \<open>a + b\<close> and \<open>a * b\<close> on numbers: the exact result rounded by \<open>fl\<close>, with the
  special values as the standard has them.
\<close>

fun jadd :: "number \<Rightarrow> number \<Rightarrow> number" where
  "jadd (Num a) (Num b) = fl (a + b)"
| "jadd NaN _ = NaN"
| "jadd _ NaN = NaN"
| "jadd Infinity NegInfinity = NaN"
| "jadd NegInfinity Infinity = NaN"
| "jadd Infinity _ = Infinity"
| "jadd _ Infinity = Infinity"
| "jadd NegInfinity _ = NegInfinity"
| "jadd _ NegInfinity = NegInfinity"

fun jmul :: "number \<Rightarrow> number \<Rightarrow> number" where
  "jmul (Num a) (Num b) = fl (a * b)"
| "jmul NaN _ = NaN"
| "jmul _ NaN = NaN"
| "jmul Infinity (Num b) = (if b = 0 then NaN else if 0 < b then Infinity else NegInfinity)"
| "jmul NegInfinity (Num b) = (if b = 0 then NaN else if 0 < b then NegInfinity else Infinity)"
| "jmul (Num a) Infinity = (if a = 0 then NaN else if 0 < a then Infinity else NegInfinity)"
| "jmul (Num a) NegInfinity = (if a = 0 then NaN else if 0 < a then NegInfinity else Infinity)"
| "jmul Infinity Infinity = Infinity"
| "jmul NegInfinity NegInfinity = Infinity"
| "jmul Infinity NegInfinity = NegInfinity"
| "jmul NegInfinity Infinity = NegInfinity"

text \<open>
  \<open>x || 0\<close> on a number: \<open>NaN\<close> and \<open>0\<close> are the falsy numbers, both give \<open>0\<close>.
\<close>

fun or_zero :: "number \<Rightarrow> number" where
  "or_zero NaN = Num 0"
| "or_zero (Num a) = (if a = 0 then Num 0 else Num a)"
| "or_zero Infinity = Infinity"
| "or_zero NegInfinity = NegInfinity"

section \<open>Quote items and the two CreateQuote pages\<close>

text \<open>
  A row of the quote form. \<open>quantity\<close> and \<open>cost\<close> hold the number that the page reads
  from the field: in \<open>src/frontend/src/App.js\<close> the change handlers store
  \<open>parseInt(e.target.value)\<close> and \<open>parseFloat(e.target.value)\<close>; in
  \<open>t24_complete_system/.../partner/CreateQuote.js\<close> the field keeps the input text and the
  effect applies \<open>parseFloat\<close> to it, so there \<open>cost\<close> stands for \<open>parseFloat(item.cost)\<close>.
  \<open>parseInt\<close> and \<open>parseFloat\<close> are built-ins of the language and are not modelled; a
  field that does not parse is \<open>NaN\<close>, and a field that parses holds a double. The rows
  of the t24 page carry an \<open>id\<close> as well.
\<close>

record quote_item =
  quantity :: number
  tree_species :: string
  operation_type :: string
  custom_operation :: string
  cost :: number

record t24_quote_item = quote_item +
  item_id :: nat

subsection \<open>t24_complete_system/frontend/src/pages/partner/CreateQuote.js\<close>

record CreateQuote_state =
  quoteItems :: "t24_quote_item list"
  totalAmount :: number
  commissionAmount :: number

text \<open>
  \<^verbatim>\<open>quoteItems.reduce((sum, item) => sum + (parseFloat(item.cost) || 0), 0)\<close>
\<close>

definition CreateQuote_total :: "'a quote_item_scheme list \<Rightarrow> number" where
  "CreateQuote_total its = foldl (\<lambda>sum item. jadd sum (or_zero (cost item))) (Num 0) its"

text \<open>
  The effect that runs whenever \<open>quoteItems\<close> changes:
  \<^verbatim>\<open>setTotalAmount(total); setCommissionAmount(total * 0.1);\<close>
\<close>

definition CreateQuote_effect :: "CreateQuote_state \<Rightarrow> CreateQuote_state" where
  "CreateQuote_effect st =
     (let total = CreateQuote_total (quoteItems st)
      in st\<lparr>totalAmount := total, commissionAmount := jmul total (Num tenth)\<rparr>)"

subsection \<open>CreateQuote in src/frontend/src/App.js\<close>

record App_CreateQuote_state =
  items :: "quote_item list"
  App_totalAmount :: number
  App_commissionAmount :: number

text \<open>
  \<^verbatim>\<open>items.reduce((sum, item) => sum + (item.quantity * item.cost), 0)\<close>
\<close>

definition App_CreateQuote_total :: "'a quote_item_scheme list \<Rightarrow> number" where
  "App_CreateQuote_total its =
     foldl (\<lambda>sum item. jadd sum (jmul (quantity item) (cost item))) (Num 0) its"

definition App_CreateQuote_effect :: "App_CreateQuote_state \<Rightarrow> App_CreateQuote_state" where
  "App_CreateQuote_effect st =
     (let total = App_CreateQuote_total (items st)
      in st\<lparr>App_totalAmount := total, App_commissionAmount := jmul total (Num tenth)\<rparr>)"

subsection \<open>What the specification asks of a quote\<close>

text \<open>
  The sum of cost times quantity over the items, and the rounding rule that the
  specification offers as its example: round half up to two decimals.
\<close>

definition sum_cost_times_quantity :: "'a quote_item_scheme list \<Rightarrow> number" where
  "sum_cost_times_quantity its =
     foldr (\<lambda>item acc. jadd (jmul (cost item) (quantity item)) acc) its (Num 0)"

definition round_half_up_2dp :: "rat \<Rightarrow> rat" where
  "round_half_up_2dp x = of_int \<lfloor>x * 100 + 1 / 2\<rfloor> / 100"

text \<open>The rule on numbers: the double nearest to the two-decimal value.\<close>

fun jround_2dp :: "number \<Rightarrow> number" where
  "jround_2dp (Num a) = fl (round_half_up_2dp a)"
| "jround_2dp x = x"

text \<open>The row of the form with the given quantity and cost, other fields as the form starts.\<close>

definition form_row :: "nat \<Rightarrow> rat \<Rightarrow> rat \<Rightarrow> t24_quote_item" where
  "form_row i q c =
     \<lparr>quantity = Num q, tree_species = ''PINE'', operation_type = ''FELLING'',
      custom_operation = [], cost = Num c, item_id = i\<rparr>"

section \<open>Leads\<close>

text \<open>
  The columns of the \<open>Lead\<close> model (\<open>backend/app/models/lead.py\<close>, compiled in
  \<open>src/unnamed/part_009\<close>), which are also the fields of the lead objects that the pages
  receive. The primary key \<open>id\<close> is \<open>lead_id\<close> here. Time stamps are integers counted in
  hours; a nullable column is an option; \<open>details\<close>, which is nullable text, is the empty
  string when absent (the pages render nothing for it either way).
\<close>

record lead =
  lead_id :: nat
  customer_name :: string
  customer_email :: string
  customer_phone :: string
  address :: string
  city :: string
  postal_code :: string
  region :: string
  summary :: string
  details :: string
  status :: string
  assigned_partner_id :: "nat option"
  assigned_at :: "int option"
  accepted_at :: "int option"
  quoted_at :: "int option"
  customer_response_at :: "int option"
  created_at :: int
  updated_at :: "int option"
  expires_at :: "int option"
  lead_fee :: rat
  commission_percent :: rat
  billed :: bool
  viewed_details :: bool
  view_count :: nat

text \<open>
  \<open>class LeadStatus(str, enum.Enum)\<close>: the members are the strings that the pages compare
  \<open>lead.status\<close> with.
\<close>

definition NEW :: string where "NEW = ''new''"
definition ASSIGNED :: string where "ASSIGNED = ''assigned''"
definition ACCEPTED :: string where "ACCEPTED = ''accepted''"
definition REJECTED :: string where "REJECTED = ''rejected''"
definition QUOTED :: string where "QUOTED = ''quoted''"
definition APPROVED :: string where "APPROVED = ''approved''"
definition DECLINED :: string where "DECLINED = ''declined''"
definition COMPLETED :: string where "COMPLETED = ''completed''"
definition EXPIRED :: string where "EXPIRED = ''expired''"

subsection \<open>What a page shows\<close>

text \<open>
  The actions a page can offer on a lead or a quote, and the elements of a rendered view:
  a titled block of text lines, a notice, the status badge (style class and text) and a
  button or link with the action it triggers.
\<close>

datatype action =
    View nat
  | Accept nat
  | Reject nat
  | CreateQuoteLink nat
  | Assign nat
  | Close
  | Approve
  | Decline

datatype element =
    Title string
  | Block string "string list"
  | Notice string string
  | Badge string string
  | Control string action

text \<open>
  \<^verbatim>\<open>status.charAt(0).toUpperCase() + status.slice(1)\<close>, on ASCII letters.
\<close>

definition toUpperCase :: "char \<Rightarrow> char" where
  "toUpperCase c =
     (case map_of (zip ''abcdefghijklmnopqrstuvwxyz'' ''ABCDEFGHIJKLMNOPQRSTUVWXYZ'') c of
        None \<Rightarrow> c
      | Some u \<Rightarrow> u)"

fun capitalize :: "string \<Rightarrow> string" where
  "capitalize [] = []"
| "capitalize (c # cs) = toUpperCase c # cs"

subsection \<open>The partner's leads page (PartnerLeads, src/unnamed/part_005)\<close>

text \<open>
  The state variables that the handlers below read or write. The page's \<open>loading\<close> flag
  and status filter are not touched by them and are left out.
\<close>

record PartnerLeads_state =
  leads :: "lead list"
  error :: "string option"
  leadDetails :: "lead option"
  showDetailsModal :: bool

definition getStatusBadgeClass :: "string \<Rightarrow> string" where
  "getStatusBadgeClass s =
     (if s = ''assigned'' then ''bg-yellow-100 text-yellow-800''
      else if s = ''accepted'' then ''bg-blue-100 text-blue-800''
      else if s = ''rejected'' then ''bg-red-100 text-red-800''
      else if s = ''quoted'' then ''bg-purple-100 text-purple-800''
      else if s = ''approved'' then ''bg-green-100 text-green-800''
      else if s = ''declined'' then ''bg-orange-100 text-orange-800''
      else if s = ''completed'' then ''bg-indigo-100 text-indigo-800''
      else ''bg-gray-100 text-gray-800'')"

definition closeDetailsModal :: "PartnerLeads_state \<Rightarrow> PartnerLeads_state" where
  "closeDetailsModal st = st\<lparr>showDetailsModal := False, leadDetails := None\<rparr>"

text \<open>
  \<open>acceptLead\<close> and \<open>rejectLead\<close> post to the server and wait. The first argument says
  whether the request succeeded: \<open>axios.post\<close> throws on a network error and on every
  answer outside 2xx, and the handler's \<open>catch\<close> takes over. The handlers check nothing
  about the lead themselves.
\<close>

definition acceptLead :: "bool \<Rightarrow> nat \<Rightarrow> PartnerLeads_state \<Rightarrow> PartnerLeads_state" where
  "acceptLead ok leadId st =
     (if ok then
        let updatedLeads =
              map (\<lambda>lead. if lead_id lead = leadId then lead\<lparr>status := ''accepted''\<rparr> else lead)
                (leads st);
            st1 = st\<lparr>leads := updatedLeads\<rparr>
        in (case leadDetails st of
              None \<Rightarrow> st1
            | Some d \<Rightarrow>
                if lead_id d = leadId
                then st1\<lparr>leadDetails := Some (d\<lparr>status := ''accepted''\<rparr>)\<rparr>
                else st1)
      else st\<lparr>error := Some ''Failed to accept lead''\<rparr>)"

definition rejectLead :: "bool \<Rightarrow> nat \<Rightarrow> PartnerLeads_state \<Rightarrow> PartnerLeads_state" where
  "rejectLead ok leadId st =
     (if ok then
        let updatedLeads =
              map (\<lambda>lead. if lead_id lead = leadId then lead\<lparr>status := ''rejected''\<rparr> else lead)
                (leads st)
        in closeDetailsModal (st\<lparr>leads := updatedLeads\<rparr>)
      else st\<lparr>error := Some ''Failed to reject lead''\<rparr>)"

text \<open>The action cell of a row of the leads table.\<close>

definition row_actions :: "lead \<Rightarrow> action list" where
  "row_actions lead =
     [View (lead_id lead)]
     @ (if status lead = ''assigned'' then [Accept (lead_id lead), Reject (lead_id lead)] else [])
     @ (if status lead = ''accepted'' then [CreateQuoteLink (lead_id lead)] else [])"

text \<open>
  The lead details modal, shown when \<open>showDetailsModal && leadDetails\<close>: the summary, then
  either the customer, address and details blocks or the notice, then the status badge,
  then the buttons of the footer.
\<close>

definition details_modal :: "lead \<Rightarrow> element list" where
  "details_modal d =
     [Title ''Lead Details'',
      Block ''Summary'' [summary d]]
     @ (if status d = ''accepted'' \<or> status d = ''quoted''
           \<or> status d = ''approved''
        then
          [Block ''Customer''
             [customer_name d, customer_email d, customer_phone d],
           Block ''Address''
             [address d, city d @ '', '' @ postal_code d,
              region d],
           Block ''Details'' [details d]]
        else
          [Notice ''Accept the lead to view full details''
             (''You must accept this lead to view customer contact information and full details. ''
              @ ''Once accepted, you will be charged 500 SEK for this lead.'')])
     @ [Block ''Status'' [],
        Badge (getStatusBadgeClass (status d)) (capitalize (status d))]
     @ (if status d = ''assigned''
        then [Control ''Accept Lead'' (Accept (lead_id d)),
              Control ''Reject Lead'' (Reject (lead_id d))]
        else [])
     @ (if status d = ''accepted''
        then [Control ''Create Quote'' (CreateQuoteLink (lead_id d))]
        else [])
     @ [Control ''Close'' Close]"

definition render_details :: "PartnerLeads_state \<Rightarrow> element list" where
  "render_details st =
     (case leadDetails st of
        None \<Rightarrow> []
      | Some d \<Rightarrow> if showDetailsModal st then details_modal d else [])"


subsection \<open>The administrator's leads page (AdminLeads, .../pages/admin/Leads.js)\<close>

text \<open>
  \<open>selectedPartner\<close> is the value of the partner select: the text of a partner id, or the
  empty text when nothing is chosen. \<open>Some p\<close> stands for the text of \<open>p\<close> (and
  \<open>parseInt\<close> reads \<open>p\<close> back from it), \<open>None\<close> for the empty text.
\<close>

record AdminLeads_state =
  admin_leads :: "lead list"
  admin_error :: "string option"
  assignModalOpen :: bool
  selectedLead :: "lead option"
  selectedPartner :: "nat option"

definition openAssignModal :: "lead \<Rightarrow> AdminLeads_state \<Rightarrow> AdminLeads_state" where
  "openAssignModal lead st =
     st\<lparr>selectedLead := Some lead, selectedPartner := None, assignModalOpen := True\<rparr>"

definition closeAssignModal :: "AdminLeads_state \<Rightarrow> AdminLeads_state" where
  "closeAssignModal st = st\<lparr>assignModalOpen := False, selectedLead := None\<rparr>"

text \<open>
  \<open>handleAssign\<close>: nothing happens without a selected lead and partner; otherwise the
  request is posted, and the first argument says whether it succeeded.
\<close>

definition handleAssign :: "bool \<Rightarrow> AdminLeads_state \<Rightarrow> AdminLeads_state" where
  "handleAssign ok st =
     (case selectedLead st of
        None \<Rightarrow> st
      | Some sel \<Rightarrow>
          (case selectedPartner st of
             None \<Rightarrow> st
           | Some p \<Rightarrow>
               if ok then
                 let updatedLeads =
                       map (\<lambda>lead. if lead_id lead = lead_id sel
                                   then lead\<lparr>assigned_partner_id := Some p, status := ''assigned''\<rparr>
                                   else lead)
                         (admin_leads st)
                 in closeAssignModal (st\<lparr>admin_leads := updatedLeads\<rparr>)
               else st\<lparr>admin_error := Some ''Failed to assign lead''\<rparr>))"

text \<open>The action cell of a row of the administrator's table.\<close>

definition admin_row_actions :: "lead \<Rightarrow> action list" where
  "admin_row_actions lead =
     [View (lead_id lead)] @ (if status lead = ''new'' then [Assign (lead_id lead)] else [])"

section \<open>The customer portal\<close>

text \<open>
  The quote objects that the portal pages hold. Only the key and the status are read or
  written by the functions below; the amounts and time stamps are those of the
  specification's data model. The key \<open>id\<close> is \<open>q_id\<close>, \<open>status\<close> is \<open>q_status\<close>.
\<close>

record quote =
  q_id :: nat
  q_lead_id :: nat
  q_status :: string
  q_total_amount :: number
  q_commission_amount :: number
  q_sent_at :: "int option"
  q_customer_response_at :: "int option"

text \<open>
  A request as the pages hand it to \<open>axios\<close>: method, URL, the \<open>Authorization\<close> header if
  one is set, and the fields of the JSON body. The outcome of the awaited call is either
  the response's \<open>data\<close>, or a thrown error (\<open>axios\<close> throws on a network failure and on
  every status outside 2xx). The server is not part of the pages: each function below
  takes the function from requests to outcomes as its \<open>axios\<close> argument.
\<close>

record request =
  http_method :: string
  url :: string
  authorization :: "string option"
  body :: "(string \<times> string) list"

datatype 'a response = Resolved 'a | Rejected

text \<open>A template literal prints a number in decimal.\<close>

fun decimal :: "nat \<Rightarrow> string" where
  "decimal n =
     (if n < 10 then [''0123456789'' ! n]
      else decimal (n div 10) @ [''0123456789'' ! (n mod 10)])"

subsection \<open>CustomerPortalProvider (second file of .../components/common/ResponsiveForm.js)\<close>

text \<open>
  The provider reads \<^verbatim>\<open>const { token } = useAuth()\<close> and its functions take that value
  as they find it; here it is their first argument. The \<open>AuthProvider\<close> of
  \<open>src/unnamed/part_008\<close> puts \<open>user\<close>, \<open>isAuthenticated\<close>, \<open>loading\<close>, \<open>error\<close>,
  \<open>login\<close> and \<open>logout\<close> into its context and no \<open>token\<close>: under it the value is
  \<open>undefined\<close>, which is \<open>None\<close>. \<open>!token\<close> holds for \<open>None\<close> and for the empty text.
\<close>

record portal_state =
  customerQuotes :: "quote list"
  currentQuote :: "quote option"
  portal_loading :: bool
  portal_error :: "string option"

definition quote_status_request :: "string \<Rightarrow> nat \<Rightarrow> string \<Rightarrow> string \<Rightarrow> request" where
  "quote_status_request token quoteId status' feedback =
     \<lparr>http_method = ''POST'',
      url = ''/api/v1/customer-portal/quote/'' @ decimal quoteId @ ''/status'',
      authorization = Some (''Bearer '' @ token),
      body = [(''status'', status'), (''feedback'', feedback)]\<rparr>"

text \<open>
  \<open>updateQuoteStatus\<close> returns the response's data, \<open>null\<close> after an error, and nothing
  when there is no token; both of the latter are \<open>None\<close>.
\<close>

definition updateQuoteStatus ::
    "string option \<Rightarrow> (request \<Rightarrow> quote response) \<Rightarrow> nat \<Rightarrow> string \<Rightarrow> string \<Rightarrow> portal_state
       \<Rightarrow> quote option \<times> portal_state"
where
  "updateQuoteStatus token axios quoteId status' feedback st =
     (case token of
        None \<Rightarrow> (None, st)
      | Some t \<Rightarrow>
          if t = [] then (None, st)
          else
            let st1 = st\<lparr>portal_loading := True, portal_error := None\<rparr>
            in (case axios (quote_status_request t quoteId status' feedback) of
                  Resolved data \<Rightarrow>
                    (Some data,
                     st1\<lparr>currentQuote := Some data,
                         customerQuotes :=
                           map (\<lambda>quote. if q_id quote = quoteId then quote\<lparr>q_status := status'\<rparr>
                                         else quote)
                             (customerQuotes st1),
                         portal_loading := False\<rparr>)
                | Rejected \<Rightarrow>
                    (None,
                     st1\<lparr>portal_error := Some ''Failed to update quote status'',
                         portal_loading := False\<rparr>)))"

text \<open>
  The body of the answer of \<open>verify-token\<close>. \<open>valid\<close> is its truthiness; the two keys may
  be \<open>null\<close>.
\<close>

record verify_data =
  valid :: bool
  customer_id :: "nat option"
  quote_id :: "nat option"

definition verify_token_request :: "string \<Rightarrow> request" where
  "verify_token_request accessToken =
     \<lparr>http_method = ''POST'',
      url = ''/api/v1/customer-portal/verify-token'',
      authorization = None,
      body = [(''access_token'', accessToken)]\<rparr>"

text \<open>
  \<open>verifyCustomerAccessToken\<close> returns \<open>response.data\<close> (which may itself be \<open>null\<close>), and
  \<open>null\<close> from its \<open>catch\<close>. \<open>None\<close> is \<open>null\<close>.
\<close>

definition verifyCustomerAccessToken ::
    "(request \<Rightarrow> verify_data option response) \<Rightarrow> string \<Rightarrow> portal_state
       \<Rightarrow> verify_data option \<times> portal_state"
where
  "verifyCustomerAccessToken axios accessToken st =
     (let st1 = st\<lparr>portal_loading := True, portal_error := None\<rparr>
      in (case axios (verify_token_request accessToken) of
            Resolved data \<Rightarrow> (data, st1\<lparr>portal_loading := False\<rparr>)
          | Rejected \<Rightarrow>
              (None,
               st1\<lparr>portal_error := Some ''Failed to verify customer access token'',
                   portal_loading := False\<rparr>)))"

subsection \<open>CustomerPortalLogin\<close>

text \<open>
  \<open>handleSubmit\<close> awaits \<open>verifyCustomerAccessToken\<close> and then runs
  \<^verbatim>\<open>if (result && result.valid) { if (onLoginSuccess) { onLoginSuccess(result.customer_id, result.quote_id); } }\<close>
  The property \<open>onLoginSuccess\<close> is the parent's to pass: \<open>None\<close> when the page is mounted
  without it (as \<open>src/frontend/src/App.js\<close> mounts it), \<open>Some f\<close> otherwise. The first
  component of the result is what the call of \<open>f\<close> gives, or \<open>None\<close> when nothing is
  called. The statement sits in a \<open>try\<close> whose \<open>catch\<close> only logs;
  \<open>verifyCustomerAccessToken\<close> has its own \<open>catch\<close> and throws nothing.
\<close>

definition handleSubmit ::
    "(request \<Rightarrow> verify_data option response) \<Rightarrow> (nat option \<Rightarrow> nat option \<Rightarrow> 'r) option
       \<Rightarrow> string \<Rightarrow> portal_state \<Rightarrow> 'r option \<times> portal_state"
where
  "handleSubmit axios onLoginSuccess accessToken st =
     (case verifyCustomerAccessToken axios accessToken st of
        (None, st') \<Rightarrow> (None, st')
      | (Some result, st') \<Rightarrow>
          if valid result then
            (case onLoginSuccess of
               None \<Rightarrow> (None, st')
             | Some f \<Rightarrow> (Some (f (customer_id result) (quote_id result)), st'))
          else (None, st'))"

subsection \<open>QuoteDetails (second file of src/frontend/.../common/ResponsiveTable.js)\<close>

text \<open>
  The approve and decline buttons are rendered when \<open>currentQuote.status === 'sent'\<close>;
  they call \<open>updateQuoteStatus\<close> with \<open>'approved'\<close> and \<open>'declined'\<close>.
\<close>

definition quote_actions :: "quote \<Rightarrow> action list" where
  "quote_actions q = (if q_status q = ''sent'' then [Approve, Decline] else [])"

definition handleApprove ::
    "string option \<Rightarrow> (request \<Rightarrow> quote response) \<Rightarrow> nat \<Rightarrow> string \<Rightarrow> portal_state
       \<Rightarrow> quote option \<times> portal_state"
where
  "handleApprove token axios quoteId feedback st =
     updateQuoteStatus token axios quoteId ''approved'' feedback st"

definition handleDecline ::
    "string option \<Rightarrow> (request \<Rightarrow> quote response) \<Rightarrow> nat \<Rightarrow> string \<Rightarrow> portal_state
       \<Rightarrow> quote option \<times> portal_state"
where
  "handleDecline token axios quoteId feedback st =
     updateQuoteStatus token axios quoteId ''declined'' feedback st"

section \<open>The lifecycle and quote services\<close>

text \<open>
  The server that answers the pages (the lead lifecycle service and the quote service) is
  not among the sources; only its \<open>Lead\<close> model is. The two operations below are written
  from the specification.
\<close>

datatype error = NotFoundError | InvalidStateError | ForbiddenError | ValidationError

text \<open>
  Modelled from the spec: the lifecycle service's \<open>assign(lead, partner)\<close>, whose code is missing.
  Section 4.1: it requires \<open>lead.status == new\<close>; it sets \<open>assigned_partner_id\<close>,
  \<open>status = assigned\<close>, \<open>assigned_at = now()\<close> and
  \<open>expires_at = now() + LEAD_EXPIRY_HOURS\<close>; it fails with \<open>InvalidStateError\<close> if the lead
  is not \<open>new\<close>, or \<open>NotFoundError\<close> if the lead or the partner is absent. Section 7: the
  state is validated before any write, and a failure writes nothing. The lead and the
  partner are looked up first, by their keys; \<open>LEAD_EXPIRY_HOURS\<close> is a parameter. The
  result is the answer and the store after the call.
\<close>

definition assign ::
    "int \<Rightarrow> int \<Rightarrow> nat set \<Rightarrow> (nat \<rightharpoonup> lead) \<Rightarrow> nat \<Rightarrow> nat \<Rightarrow> (error + lead) \<times> (nat \<rightharpoonup> lead)"
where
  "assign LEAD_EXPIRY_HOURS now partners store leadId partnerId =
     (case store leadId of
        None \<Rightarrow> (Inl NotFoundError, store)
      | Some l \<Rightarrow>
          if partnerId \<notin> partners then (Inl NotFoundError, store)
          else if status l \<noteq> NEW then (Inl InvalidStateError, store)
          else
            let l' = l\<lparr>assigned_partner_id := Some partnerId, status := ASSIGNED,
                       assigned_at := Some now, expires_at := Some (now + LEAD_EXPIRY_HOURS)\<rparr>
            in (Inr l', store(leadId \<mapsto> l')))"

text \<open>
  Modelled from the spec: the quote service's \<open>respond(quote, decision, feedback)\<close>, whose code is
  missing. Section 4.2: it requires \<open>status == sent\<close>; the decision is \<open>approved\<close> or
  \<open>declined\<close>; it sets \<open>status\<close> and \<open>customer_response_at = now()\<close>; on a quote that is
  already terminal it fails with \<open>InvalidStateError\<close> rather than overwriting. Section 7:
  \<open>NotFoundError\<close> for an absent entity, \<open>ValidationError\<close> for a malformed field, state
  validated before any write. The data model keeps no feedback on the quote.
\<close>

definition respond ::
    "int \<Rightarrow> (nat \<rightharpoonup> quote) \<Rightarrow> nat \<Rightarrow> string \<Rightarrow> string \<Rightarrow> (error + quote) \<times> (nat \<rightharpoonup> quote)"
where
  "respond now store quoteId decision feedback =
     (case store quoteId of
        None \<Rightarrow> (Inl NotFoundError, store)
      | Some q \<Rightarrow>
          if q_status q \<noteq> ''sent'' then (Inl InvalidStateError, store)
          else if decision \<noteq> ''approved'' \<and> decision \<noteq> ''declined''
          then (Inl ValidationError, store)
          else
            let q' = q\<lparr>q_status := decision, q_customer_response_at := Some now\<rparr>
            in (Inr q', store(quoteId \<mapsto> q')))"

text \<open>
  Modelled from the spec: the endpoint \<open>POST /customer-portal/quote/{id}/status\<close> in front of
  \<open>respond\<close>, whose code is missing. Section 6: 200 with the quote, 409 if the quote is not
  \<open>sent\<close>; section 7 maps every error to a status outside 2xx, which \<open>axios\<close> throws on.
  The answer and the store after the call; the check of the caller's credential is not
  part of it.
\<close>

definition quote_status_endpoint ::
    "int \<Rightarrow> (nat \<rightharpoonup> quote) \<Rightarrow> nat \<Rightarrow> string \<Rightarrow> string \<Rightarrow> quote response \<times> (nat \<rightharpoonup> quote)"
where
  "quote_status_endpoint now store quoteId decision feedback =
     (case respond now store quoteId decision feedback of
        (Inl e, store') \<Rightarrow> (Rejected, store')
      | (Inr q, store') \<Rightarrow> (Resolved q, store'))"

section \<open>Sample data and observations\<close>

text \<open>
  A lead, a quote and a portal state to evaluate the pages on, and the titles of the
  text blocks of a rendered view.
\<close>

definition example_lead :: "nat \<Rightarrow> lead" where
  "example_lead i =
     \<lparr>lead_id = i, customer_name = ''Ada Berg'', customer_email = ''ada@example.se'',
      customer_phone = ''070-1234567'', address = ''Storgatan 1'', city = ''Umea'',
      postal_code = ''90326'', region = ''Norr'', summary = ''Fell two pines'',
      details = ''Close to the house'', status = ''new'', assigned_partner_id = None,
      assigned_at = None, accepted_at = None, quoted_at = None,
      customer_response_at = None, created_at = 0, updated_at = None, expires_at = None,
      lead_fee = 500, commission_percent = 10, billed = False, viewed_details = False,
      view_count = 0\<rparr>"

text \<open>The same lead, assigned to partner 4 at hour 10 and expiring at hour 58.\<close>

definition assigned_lead :: "nat \<Rightarrow> lead" where
  "assigned_lead i =
     (example_lead i)\<lparr>status := ''assigned'', assigned_partner_id := Some 4,
        assigned_at := Some 10, expires_at := Some 58\<rparr>"

definition example_quote :: "nat \<Rightarrow> string \<Rightarrow> int option \<Rightarrow> quote" where
  "example_quote i s r =
     \<lparr>q_id = i, q_lead_id = 3, q_status = s, q_total_amount = Num 250,
      q_commission_amount = Num 25, q_sent_at = Some 70, q_customer_response_at = r\<rparr>"

definition empty_portal :: portal_state where
  "empty_portal =
     \<lparr>customerQuotes = [], currentQuote = None, portal_loading = False, portal_error = None\<rparr>"

fun block_titles :: "element list \<Rightarrow> string list" where
  "block_titles [] = []"
| "block_titles (Block t ls # xs) = t # block_titles xs"
| "block_titles (x # xs) = block_titles xs"

section \<open>Rounding to binary64\<close>

text \<open>
  The rounded significand is within one half of the exact one, and an integer is its own
  rounding.
\<close>

lemma round_ties_even_error: "\<bar>of_int (round_ties_even y) - y\<bar> \<le> 1 / 2"
proof -
  have "of_int \<lfloor>y\<rfloor> \<le> y" and "y < of_int \<lfloor>y\<rfloor> + 1"
    by linarith+
  then show ?thesis
    by (auto simp add: round_ties_even_def Let_def)
qed

lemma round_ties_even_of_int [simp]: "round_ties_even (of_int m) = m"
  by (simp add: round_ties_even_def)

text \<open>\<open>ilog2\<close> is the binary exponent.\<close>

lemma bitlen_powi:
  assumes "0 < p"
  shows "2 powi (bitlen p - 1) \<le> (of_int p :: rat)" and "(of_int p :: rat) < 2 powi (bitlen p)"
proof -
  from bitlen_bounds [OF assms]
  have a: "2 ^ nat (bitlen p - 1) \<le> p" and b: "p < 2 ^ nat (bitlen p)" by auto
  from assms have pos: "1 \<le> bitlen p" by (auto simp: bitlen_alt_def)
  have "(2::rat) powi (bitlen p - 1) = 2 ^ nat (bitlen p - 1)"
    using pos by (simp add: power_int_def)
  also have "\<dots> = of_int (2 ^ nat (bitlen p - 1))" by simp
  also have "\<dots> \<le> of_int p" using a by (simp only: of_int_le_iff)
  finally show "2 powi (bitlen p - 1) \<le> (of_int p :: rat)" .
  have "(of_int p :: rat) < of_int (2 ^ nat (bitlen p))" using b by (simp only: of_int_less_iff)
  also have "\<dots> = 2 ^ nat (bitlen p)" by simp
  also have "\<dots> = 2 powi (bitlen p)" using pos by (simp add: power_int_def)
  finally show "(of_int p :: rat) < 2 powi (bitlen p)" .
qed

lemma ilog2_bounds:
  assumes "0 < x"
  shows "2 powi (ilog2 x) \<le> x" and "x < 2 powi (ilog2 x + 1)"
proof -
  obtain p q where pq: "quotient_of x = (p, q)" by (cases "quotient_of x")
  then have qpos: "0 < q" by (rule quotient_of_denom_pos)
  have x: "x = of_int p / of_int q" using pq by (rule quotient_of_div)
  with assms qpos have ppos: "0 < p" by (simp add: zero_less_divide_iff)
  let ?k = "bitlen p - bitlen q"
  note P = bitlen_powi [OF ppos] and Q = bitlen_powi [OF qpos]
  have qr: "0 < (of_int q :: rat)" using qpos by simp
  have lower: "2 powi (?k - 1) \<le> x"
  proof -
    have "2 powi (?k - 1) * (of_int q :: rat) \<le> 2 powi (?k - 1) * 2 powi (bitlen q)"
      using Q(2) by (intro mult_left_mono) auto
    also have "\<dots> = 2 powi (bitlen p - 1)"
      by (simp add: power_int_add [symmetric])
    also have "\<dots> \<le> of_int p" by (rule P(1))
    finally show ?thesis using qr by (simp add: x pos_le_divide_eq)
  qed
  have upper: "x < 2 powi (?k + 1)"
  proof -
    have "(of_int p :: rat) < 2 powi (bitlen p)" by (rule P(2))
    also have "\<dots> = 2 powi (?k + 1) * 2 powi (bitlen q - 1)"
      by (simp add: power_int_add [symmetric])
    also have "\<dots> \<le> 2 powi (?k + 1) * of_int q"
      using Q(1) by (intro mult_left_mono) auto
    finally show ?thesis using qr by (simp add: x pos_divide_less_eq)
  qed
  have e: "ilog2 x = (if 2 powi ?k \<le> x then ?k else ?k - 1)"
    by (simp add: ilog2_def pq Let_def)
  show "2 powi (ilog2 x) \<le> x" using lower by (simp add: e)
  show "x < 2 powi (ilog2 x + 1)" using upper by (auto simp add: e not_le)
qed

lemma powi_le_cancel:
  assumes "(2::rat) powi a \<le> x" and "x < 2 powi b"
  shows "a < b"
proof (rule ccontr)
  assume "\<not> a < b"
  then have "(2::rat) powi b \<le> 2 powi a" by (intro power_int_increasing) simp_all
  with assms show False by simp
qed

lemma ilog2_eqI:
  assumes "2 powi e \<le> x" and "x < 2 powi (e + 1)"
  shows "ilog2 x = e"
proof -
  have pos: "0 < x" using assms(1) by (rule less_le_trans [rotated]) simp
  note B = ilog2_bounds [OF pos]
  have 1: "e < ilog2 x + 1" using assms(1) B(2) by (rule powi_le_cancel)
  have 2: "ilog2 x < e + 1" using B(1) assms(2) by (rule powi_le_cancel)
  from 1 2 show ?thesis by simp
qed

text \<open>
  In the normal range \<open>fl\<close> rounds the significand and does not overflow: for
  \<open>2 ^ e \<le> \<bar>x\<bar> < 2 ^ (e + 1)\<close> with \<open>- 1022 \<le> e \<le> 1022\<close> the result is the multiple
  of \<open>2 ^ (e - 52)\<close> nearest to \<open>x\<close>.
\<close>

lemma powi_split_53: "(2::rat) powi 53 * 2 powi (e - 52) = 2 powi (e + 1)"
  by (subst power_int_add [symmetric]) (simp_all add: algebra_simps)

lemma powi_quot_53: "(2::rat) powi (e + 1) / 2 powi (e - 52) = 2 powi 53"
  by (subst power_int_diff [symmetric]) (simp_all add: algebra_simps)

lemma powi_1023: "(2::rat) powi 1023 < 2 ^ 1024"
proof -
  have "(2::rat) powi 1023 = 2 ^ 1023" by (simp add: power_int_def)
  also have "\<dots> < 2 ^ 1024" by (rule power_strict_increasing) simp_all
  finally show ?thesis .
qed

lemma significand_bound:
  assumes "\<bar>y\<bar> < (2::rat) powi 53"
  shows "\<bar>rat_of_int (round_ties_even y)\<bar> \<le> 2 powi 53"
proof -
  let ?m = "round_ties_even y"
  have "\<bar>of_int ?m - y\<bar> \<le> 1 / 2" by (rule round_ties_even_error)
  then have "\<bar>rat_of_int ?m\<bar> \<le> \<bar>y\<bar> + 1 / 2" by linarith
  also have "\<dots> < 2 powi 53 + 1 / 2" using assms by simp
  finally have "rat_of_int \<bar>?m\<bar> < rat_of_int (2 ^ 53 + 1)" by simp
  then have "\<bar>?m\<bar> < 2 ^ 53 + 1" by (simp only: of_int_less_iff)
  then have "\<bar>?m\<bar> \<le> 2 ^ 53" by simp
  then have "rat_of_int \<bar>?m\<bar> \<le> rat_of_int (2 ^ 53)" by (simp only: of_int_le_iff)
  then show ?thesis by simp
qed

lemma fl_normal:
  assumes "- 1022 \<le> e" and "e \<le> 1022" and "2 powi e \<le> \<bar>x\<bar>" and "\<bar>x\<bar> < 2 powi (e + 1)"
  shows "fl x = Num (of_int (round_ties_even (x / 2 powi (e - 52))) * 2 powi (e - 52))"
proof -
  let ?u = "(2::rat) powi (e - 52)"
  let ?m = "round_ties_even (x / ?u)"
  have upos: "0 < ?u" by simp
  have "0 < (2::rat) powi e" by simp
  with assms(3) have "0 < \<bar>x\<bar>" by linarith
  then have x0: "x \<noteq> 0" by simp
  have e: "ilog2 \<bar>x\<bar> = e" using assms(3,4) by (rule ilog2_eqI)
  have "\<bar>x / ?u\<bar> = \<bar>x\<bar> / ?u" using upos by simp
  also have "\<dots> < 2 powi (e + 1) / ?u" using assms(4) upos by (rule divide_strict_right_mono)
  also have "\<dots> = 2 powi 53" by (rule powi_quot_53)
  finally have "\<bar>rat_of_int ?m\<bar> \<le> 2 powi 53" by (rule significand_bound)
  then have "\<bar>rat_of_int ?m\<bar> * ?u \<le> 2 powi 53 * ?u"
    using upos by (intro mult_right_mono) simp_all
  also have "\<dots> = 2 powi (e + 1)" by (rule powi_split_53)
  also have "\<dots> \<le> 2 powi 1023" using assms(2) by (intro power_int_increasing) simp_all
  also have "\<dots> < 2 ^ 1024" by (rule powi_1023)
  finally have "\<bar>rat_of_int ?m\<bar> * ?u < 2 ^ 1024" .
  moreover have "\<bar>rat_of_int ?m * ?u\<bar> = \<bar>rat_of_int ?m\<bar> * ?u"
    using upos by (simp add: abs_mult)
  ultimately have no: "\<not> 2 ^ 1024 \<le> \<bar>rat_of_int ?m * ?u\<bar>" by simp
  have m: "max (ilog2 \<bar>x\<bar>) (- 1022) = e" using assms(1) by (simp add: e)
  show ?thesis
    unfolding fl_def Let_def m using x0 no by (simp only: if_False)
qed

text \<open>The relative error of a rounding in the normal range is at most \<open>2 ^ (- 53)\<close>.\<close>

lemma fl_error:
  assumes "- 1022 \<le> e" and "e \<le> 1022" and "2 powi e \<le> \<bar>x\<bar>" and "\<bar>x\<bar> < 2 powi (e + 1)"
  shows "\<exists>r. fl x = Num r \<and> \<bar>r - x\<bar> \<le> \<bar>x\<bar> / 2 ^ 53"
proof -
  let ?u = "(2::rat) powi (e - 52)"
  let ?r = "of_int (round_ties_even (x / ?u)) * ?u"
  have upos: "0 < ?u" by simp
  have "\<bar>?r - x\<bar> = \<bar>of_int (round_ties_even (x / ?u)) - x / ?u\<bar> * ?u"
  proof -
    have "?r - x = (of_int (round_ties_even (x / ?u)) - x / ?u) * ?u"
      using upos by (simp add: left_diff_distrib)
    then show ?thesis using upos by (simp only: abs_mult abs_of_pos)
  qed
  also have "\<dots> \<le> 1 / 2 * ?u"
    using upos by (intro mult_right_mono round_ties_even_error) simp
  also have "1 / 2 * ?u = 2 powi e / 2 ^ 53"
  proof -
    have "(2::rat) powi e = 2 powi 52 * ?u" by (subst power_int_add [symmetric]) simp_all
    then show ?thesis by simp
  qed
  also have "\<dots> \<le> \<bar>x\<bar> / 2 ^ 53" using assms(3) by (simp add: divide_right_mono)
  finally have "\<bar>?r - x\<bar> \<le> \<bar>x\<bar> / 2 ^ 53" .
  moreover have "fl x = Num ?r" using assms by (rule fl_normal)
  ultimately show ?thesis by blast
qed

text \<open>An exact result of \<open>2 ^ 1024\<close> or more is \<open>Infinity\<close>.\<close>

lemma fl_overflow:
  assumes "2 ^ 1024 \<le> x"
  shows "fl x = Infinity"
proof -
  have big: "(0::rat) < 2 ^ 1024" by simp
  with assms have xpos: "0 < x" by linarith
  then have ax: "\<bar>x\<bar> = x" by simp
  let ?e = "ilog2 x"
  note B = ilog2_bounds [OF xpos]
  have p: "(2::rat) powi 1024 = 2 ^ 1024" by (simp add: power_int_def)
  have "(2::rat) powi 1024 \<le> x" using assms by (simp only: p)
  then have "1024 < ?e + 1" using B(2) by (rule powi_le_cancel)
  then have e: "1024 \<le> ?e" by simp
  then have m: "max ?e (- 1022) = ?e" by simp
  let ?u = "(2::rat) powi (?e - 52)"
  let ?m = "round_ties_even (x / ?u)"
  have upos: "0 < ?u" by simp
  have split: "(2::rat) powi 52 * ?u = 2 powi ?e"
    by (subst power_int_add [symmetric]) simp_all
  have "(2::rat) powi 52 = 2 powi ?e / ?u" using upos by (simp add: split [symmetric])
  also have "\<dots> \<le> x / ?u" using B(1) upos by (simp add: divide_right_mono)
  finally have q: "2 powi 52 \<le> x / ?u" .
  have "\<bar>of_int ?m - x / ?u\<bar> \<le> 1 / 2" by (rule round_ties_even_error)
  then have "x / ?u - 1 / 2 \<le> rat_of_int ?m" by linarith
  with q have "(2::rat) powi 52 - 1 / 2 \<le> rat_of_int ?m" by linarith
  then have "rat_of_int (2 ^ 52 - 1) < rat_of_int ?m" by simp
  then have "2 ^ 52 - 1 < ?m" by (simp only: of_int_less_iff)
  then have "2 ^ 52 \<le> ?m" by simp
  then have "rat_of_int (2 ^ 52) \<le> rat_of_int ?m" by (simp only: of_int_le_iff)
  then have mm: "(2::rat) powi 52 \<le> rat_of_int ?m" by simp
  have "(2::rat) ^ 1024 = 2 powi 1024" by (simp only: p)
  also have "\<dots> \<le> 2 powi ?e" using e by (intro power_int_increasing) simp_all
  also have "\<dots> = 2 powi 52 * ?u" by (simp only: split)
  also have "\<dots> \<le> rat_of_int ?m * ?u" using mm upos by (intro mult_right_mono) simp_all
  finally have r: "2 ^ 1024 \<le> rat_of_int ?m * ?u" .
  then have "2 ^ 1024 \<le> \<bar>rat_of_int ?m * ?u\<bar>" by linarith
  moreover have "x \<noteq> 0" using xpos by simp
  ultimately show ?thesis
    unfolding fl_def Let_def ax m using xpos by (simp only: if_True if_False)
qed

text \<open>
  The literal \<open>0.1\<close> exceeds one tenth by \<open>2 ^ (- 54)\<close> of it, and the product of a
  total with it, rounded, is within \<open>2 ^ (- 52)\<close> of a tenth of the total, relatively.
\<close>

lemma tenth_error: "tenth - 1 / 10 = 1 / 10 / 2 ^ 54"
  by (simp add: tenth_def)

lemma tenth_product_error:
  assumes lo: "2 powi (- 1000) \<le> \<bar>t\<bar>" and hi: "\<bar>t\<bar> \<le> 2 powi 1000"
  shows "\<exists>c. fl (t * tenth) = Num c \<and> \<bar>c - t / 10\<bar> \<le> \<bar>t / 10\<bar> / 2 ^ 52"
proof -
  let ?x = "t * tenth"
  have t4: "2 powi (- 4) \<le> tenth" and t3: "tenth < 2 powi (- 3)"
    by (simp_all add: tenth_def power_int_minus)
  have tpos: "0 < tenth" by (simp add: tenth_def)
  have ax: "\<bar>?x\<bar> = \<bar>t\<bar> * tenth" using tpos by (simp add: abs_mult)
  have "0 < (2::rat) powi (- 1000)" by simp
  with lo have tnz: "0 < \<bar>t\<bar>" by linarith
  have "(2::rat) powi (- 1004) = 2 powi (- 1000) * 2 powi (- 4)"
    by (subst power_int_add [symmetric]) simp_all
  also have "\<dots> \<le> \<bar>t\<bar> * tenth"
    using lo t4 by (intro mult_mono) simp_all
  finally have xlo: "2 powi (- 1004) \<le> \<bar>?x\<bar>" by (simp only: ax)
  have "\<bar>t\<bar> * tenth < \<bar>t\<bar> * 2 powi (- 3)"
    using t3 tnz by (rule mult_strict_left_mono)
  also have "\<dots> \<le> 2 powi 1000 * 2 powi (- 3)"
    using hi by (intro mult_right_mono) simp_all
  also have "\<dots> = (2::rat) powi 997"
    by (subst power_int_add [symmetric]) simp_all
  finally have xhi: "\<bar>?x\<bar> < 2 powi 997" by (simp only: ax)
  have xpos: "0 < \<bar>?x\<bar>" using tnz tpos by (simp add: ax)
  let ?e = "ilog2 \<bar>?x\<bar>"
  note B = ilog2_bounds [OF xpos]
  have "- 1004 < ?e + 1" using xlo B(2) by (rule powi_le_cancel)
  then have e1: "- 1022 \<le> ?e" by simp
  have "?e < 997" using B(1) xhi by (rule powi_le_cancel)
  then have e2: "?e \<le> 1022" by simp
  from fl_error [OF e1 e2 B]
  obtain r where r: "fl ?x = Num r" and err: "\<bar>r - ?x\<bar> \<le> \<bar>?x\<bar> / 2 ^ 53" by blast
  have d: "?x - t / 10 = t / 10 / 2 ^ 54"
  proof -
    have "?x - t / 10 = t * (tenth - 1 / 10)" by (simp add: right_diff_distrib)
    also have "\<dots> = t / 10 / 2 ^ 54" by (simp only: tenth_error) simp
    finally show ?thesis .
  qed
  have d': "\<bar>?x - t / 10\<bar> = \<bar>t / 10\<bar> / 2 ^ 54"
  proof -
    have "\<bar>?x - t / 10\<bar> = \<bar>t / 10 / 2 ^ 54\<bar>" by (simp only: d)
    also have "\<dots> = \<bar>t / 10\<bar> / 2 ^ 54" by (simp only: abs_divide) simp
    finally show ?thesis .
  qed
  have "\<bar>?x\<bar> \<le> \<bar>t / 10\<bar> + \<bar>?x - t / 10\<bar>" by linarith
  with d' have x': "\<bar>?x\<bar> \<le> \<bar>t / 10\<bar> + \<bar>t / 10\<bar> / 2 ^ 54" by simp
  have "\<bar>r - t / 10\<bar> \<le> \<bar>r - ?x\<bar> + \<bar>?x - t / 10\<bar>" by linarith
  also have "\<dots> \<le> \<bar>?x\<bar> / 2 ^ 53 + \<bar>t / 10\<bar> / 2 ^ 54" using err d' by simp
  also have "\<dots> \<le> (\<bar>t / 10\<bar> + \<bar>t / 10\<bar> / 2 ^ 54) / 2 ^ 53 + \<bar>t / 10\<bar> / 2 ^ 54"
    using x' by (simp add: divide_right_mono)
  also have "\<dots> \<le> \<bar>t / 10\<bar> / 2 ^ 52"
  proof -
    have "0 \<le> \<bar>t / 10\<bar>" by simp
    then show ?thesis by (simp add: field_simps)
  qed
  finally show ?thesis using r by blast
qed

text \<open>
  The roundings that the quotes below need. Each is \<open>fl_normal\<close> at the exponent of the
  value, with the floor of the significand evaluated on numerals.
\<close>

lemma floor_numeral_div_rat [simp]:
  "\<lfloor>(numeral a :: rat) / numeral b\<rfloor> = numeral a div numeral b"
  by (metis floor_divide_of_int_eq of_int_numeral)

lemma fl_50: "fl 50 = Num 50"
  using fl_normal [of 5 50] by (simp add: round_ties_even_def Let_def)

lemma fl_100: "fl 100 = Num 100"
  using fl_normal [of 6 100] by (simp add: round_ties_even_def Let_def)

lemma fl_150: "fl 150 = Num 150"
  using fl_normal [of 7 150] by (simp add: round_ties_even_def Let_def)

lemma fl_200: "fl 200 = Num 200"
  using fl_normal [of 7 200] by (simp add: round_ties_even_def Let_def)

lemma fl_250: "fl 250 = Num 250"
  using fl_normal [of 7 250] by (simp add: round_ties_even_def Let_def)

lemma fl_3: "fl 3 = Num 3"
  using fl_normal [of 1 3] by (simp add: round_ties_even_def Let_def)

lemma fl_quarter: "fl (1 / 4) = Num (1 / 4)"
  using fl_normal [of "- 2" "1 / 4"] by (simp add: round_ties_even_def Let_def)

lemma fl_three_quarters: "fl (3 / 4) = Num (3 / 4)"
  using fl_normal [of "- 1" "3 / 4"] by (simp add: round_ties_even_def Let_def)

lemma fl_150_tenth: "fl (150 * tenth) = Num 15"
  using fl_normal [of 3 "150 * tenth"] by (simp add: round_ties_even_def Let_def tenth_def)

lemma fl_250_tenth: "fl (250 * tenth) = Num 25"
  using fl_normal [of 4 "250 * tenth"] by (simp add: round_ties_even_def Let_def tenth_def)

lemma fl_3_tenth: "fl (3 * tenth) = Num (1351079888211149 / 4503599627370496)"
  using fl_normal [of "- 2" "3 * tenth"] by (simp add: round_ties_even_def Let_def tenth_def)

lemma fl_quarter_tenth: "fl (tenth / 4) = Num (tenth / 4)"
  using fl_normal [of "- 6" "tenth / 4"] by (simp add: round_ties_even_def Let_def tenth_def)

lemma fl_three_quarters_tenth:
  "fl (3 * tenth / 4) = Num (1351079888211149 / 18014398509481984)"
  using fl_normal [of "- 4" "3 * tenth / 4"] by (simp add: round_ties_even_def Let_def tenth_def)

lemma fl_3_hundredths: "fl (3 / 100) = Num (8646911284551352 / 288230376151711744)"
  using fl_normal [of "- 6" "3 / 100"] by (simp add: round_ties_even_def Let_def)

text \<open>
  Two sums for orientation: \<open>0.1 + 0.2\<close> is a tie between two doubles and goes to the
  even one, which prints as \<open>0.30000000000000004\<close>, and \<open>2 ^ 1023 + 2 ^ 1023\<close>
  overflows.
\<close>

lemma binary64_tenth_plus_fifth:
  "jadd (Num tenth) (Num (2 * tenth)) = Num (5404319552844596 / 18014398509481984)"
  using fl_normal [of "- 2" "tenth + 2 * tenth"]
  by (simp add: round_ties_even_def Let_def tenth_def)

lemma binary64_overflow: "jadd (Num (2 ^ 1023)) (Num (2 ^ 1023)) = Infinity"
  using fl_overflow [of "2 ^ 1023 + 2 ^ 1023"] by simp

lemmas binary64_values =
  fl_50 fl_100 fl_150 fl_200 fl_250 fl_3 fl_quarter fl_three_quarters fl_150_tenth
  fl_250_tenth fl_3_tenth fl_quarter_tenth fl_three_quarters_tenth fl_3_hundredths

section \<open>Totals\<close>

lemma jadd_NaN_left [simp]: "jadd NaN y = NaN"
  by (cases y) simp_all

lemma jmul_commute: "jmul a b = jmul b a"
  by (cases a; cases b) (simp_all add: mult.commute)

text \<open>
  The t24 page's total does not depend on the quantities at all.
\<close>

lemma CreateQuote_total_ignores_quantity:
  "CreateQuote_total (map (\<lambda>item. item\<lparr>quantity := q item\<rparr>) its) = CreateQuote_total its"
  by (simp add: CreateQuote_total_def foldl_map)

text \<open>
  The page of \<open>App.js\<close> on the rows (quantity 2, cost 100), (quantity 1, cost 50): the
  total is the sum of cost times quantity.
\<close>

lemma App_CreateQuote_effect_two_rows:
  "App_totalAmount (App_CreateQuote_effect
      \<lparr>items = map quote_item.truncate [form_row 1 2 100, form_row 2 1 50],
       App_totalAmount = Num 0, App_commissionAmount = Num 0\<rparr>) = Num 250
   \<and> App_commissionAmount (App_CreateQuote_effect
      \<lparr>items = map quote_item.truncate [form_row 1 2 100, form_row 2 1 50],
       App_totalAmount = Num 0, App_commissionAmount = Num 0\<rparr>) = Num 25"
  by (simp add: App_CreateQuote_effect_def App_CreateQuote_total_def form_row_def
      quote_item.truncate_def binary64_values)

text \<open>
  C1. The quote's total is the sum over the items of cost times quantity, and the items
  (quantity 2, cost 100), (quantity 1, cost 50) give total 250 and commission 25.
  The t24 page adds the costs and leaves the quantities out: on these two rows it
  sets the total to 150 and the commission to 15.
\<close>

theorem CreateQuote_effect_two_rows:
  "totalAmount (CreateQuote_effect
      \<lparr>quoteItems = [form_row 1 2 100, form_row 2 1 50],
       totalAmount = Num 0, commissionAmount = Num 0\<rparr>) = Num 150
   \<and> commissionAmount (CreateQuote_effect
      \<lparr>quoteItems = [form_row 1 2 100, form_row 2 1 50],
       totalAmount = Num 0, commissionAmount = Num 0\<rparr>) = Num 15
   \<and> sum_cost_times_quantity [form_row 1 2 100, form_row 2 1 50] = Num 250"
  by (simp add: CreateQuote_effect_def CreateQuote_total_def form_row_def
      sum_cost_times_quantity_def binary64_values)

text \<open>
  C9. The two pages compute the same total for the same rows. They do not: on one row with
  quantity 2 and cost 100 the t24 page gives 100 and the page of \<open>App.js\<close> gives 200.
\<close>

theorem CreateQuote_totals_differ:
  "CreateQuote_total [form_row 1 2 100] = Num 100
   \<and> App_CreateQuote_total [form_row 1 2 100] = Num 200"
  by (simp add: CreateQuote_total_def App_CreateQuote_total_def form_row_def binary64_values)

section \<open>Commission\<close>

lemma CreateQuote_effect_total:
  "totalAmount (CreateQuote_effect st) = CreateQuote_total (quoteItems st)"
  by (simp add: CreateQuote_effect_def Let_def)

lemma CreateQuote_effect_commission:
  "commissionAmount (CreateQuote_effect st)
     = jmul (CreateQuote_total (quoteItems st)) (Num tenth)"
  by (simp add: CreateQuote_effect_def Let_def)

lemma App_CreateQuote_effect_total:
  "App_totalAmount (App_CreateQuote_effect st) = App_CreateQuote_total (items st)"
  by (simp add: App_CreateQuote_effect_def Let_def)

lemma App_CreateQuote_effect_commission:
  "App_commissionAmount (App_CreateQuote_effect st)
     = jmul (App_CreateQuote_total (items st)) (Num tenth)"
  by (simp add: App_CreateQuote_effect_def Let_def)

text \<open>
  The product is not a tenth of the total in general: one row of quantity 1 and cost 3 on
  the page of \<open>App.js\<close> gives the total 3 and the commission
  \<open>1351079888211149 / 2 ^ 52\<close>, which prints as \<open>0.30000000000000004\<close>.
\<close>

lemma commission_of_three:
  "App_totalAmount (App_CreateQuote_effect
      \<lparr>items = [quote_item.truncate (form_row 1 1 3)], App_totalAmount = Num 0,
       App_commissionAmount = Num 0\<rparr>) = Num 3
   \<and> App_commissionAmount (App_CreateQuote_effect
      \<lparr>items = [quote_item.truncate (form_row 1 1 3)], App_totalAmount = Num 0,
       App_commissionAmount = Num 0\<rparr>) = Num (1351079888211149 / 4503599627370496)
   \<and> (1351079888211149 / 4503599627370496 :: rat) \<noteq> 3 / 10"
  by (simp add: App_CreateQuote_effect_total App_CreateQuote_effect_commission
      App_CreateQuote_total_def form_row_def quote_item.truncate_def binary64_values)

text \<open>
  C2, as the pages have it. On both pages the commission is the binary64 product of the
  total and the literal \<open>0.1\<close>, and nothing else is done to it: no rounding to a number
  of decimals. For a total \<open>t\<close> with \<open>2 ^ (- 1000) \<le> \<bar>t\<bar> \<le> 2 ^ 1000\<close> the commission
  is a number within the relative error \<open>2 ^ (- 52)\<close> of \<open>t / 10\<close>, and the total 0 gives
  the commission 0.
\<close>

theorem commission_is_total_times_tenth:
  "commissionAmount (CreateQuote_effect st)
     = jmul (totalAmount (CreateQuote_effect st)) (Num tenth)
   \<and> App_commissionAmount (App_CreateQuote_effect st')
     = jmul (App_totalAmount (App_CreateQuote_effect st')) (Num tenth)
   \<and> (totalAmount (CreateQuote_effect st) = Num t
        \<and> 2 powi (- 1000) \<le> \<bar>t\<bar> \<and> \<bar>t\<bar> \<le> 2 powi 1000
      \<longrightarrow> (\<exists>c. commissionAmount (CreateQuote_effect st) = Num c
               \<and> \<bar>c - t / 10\<bar> \<le> \<bar>t / 10\<bar> / 2 ^ 52))
   \<and> (App_totalAmount (App_CreateQuote_effect st') = Num t'
        \<and> 2 powi (- 1000) \<le> \<bar>t'\<bar> \<and> \<bar>t'\<bar> \<le> 2 powi 1000
      \<longrightarrow> (\<exists>c. App_commissionAmount (App_CreateQuote_effect st') = Num c
               \<and> \<bar>c - t' / 10\<bar> \<le> \<bar>t' / 10\<bar> / 2 ^ 52))
   \<and> (totalAmount (CreateQuote_effect st) = Num 0
      \<longrightarrow> commissionAmount (CreateQuote_effect st) = Num 0)
   \<and> (App_totalAmount (App_CreateQuote_effect st') = Num 0
      \<longrightarrow> App_commissionAmount (App_CreateQuote_effect st') = Num 0)"
proof -
  have a: "commissionAmount (CreateQuote_effect st)
      = jmul (totalAmount (CreateQuote_effect st)) (Num tenth)"
    by (simp only: CreateQuote_effect_commission CreateQuote_effect_total)
  have b: "App_commissionAmount (App_CreateQuote_effect st')
      = jmul (App_totalAmount (App_CreateQuote_effect st')) (Num tenth)"
    by (simp only: App_CreateQuote_effect_commission App_CreateQuote_effect_total)
  have c: "\<exists>c. jmul (Num r) (Num tenth) = Num c \<and> \<bar>c - r / 10\<bar> \<le> \<bar>r / 10\<bar> / 2 ^ 52"
    if "2 powi (- 1000) \<le> \<bar>r\<bar>" and "\<bar>r\<bar> \<le> 2 powi 1000" for r
    using tenth_product_error [OF that] by simp
  have z: "jmul (Num 0) (Num tenth) = Num 0" by (simp add: fl_def)
  show ?thesis
    unfolding a b using c z by auto
qed

theorem commission_is_total_times_tenth_witness:
  "totalAmount (CreateQuote_effect
      \<lparr>quoteItems = [form_row 1 1 (1 / 4)], totalAmount = Num 0, commissionAmount = Num 0\<rparr>)
     = Num (1 / 4)
   \<and> commissionAmount (CreateQuote_effect
      \<lparr>quoteItems = [form_row 1 1 (1 / 4)], totalAmount = Num 0, commissionAmount = Num 0\<rparr>)
     = Num (tenth / 4)
   \<and> \<bar>tenth / 4 - 1 / 4 / 10\<bar> \<le> \<bar>1 / 4 / 10\<bar> / 2 ^ 52
   \<and> App_totalAmount (App_CreateQuote_effect
      \<lparr>items = [quote_item.truncate (form_row 1 3 (1 / 4))], App_totalAmount = Num 0,
       App_commissionAmount = Num 0\<rparr>)
     = Num (3 / 4)
   \<and> App_commissionAmount (App_CreateQuote_effect
      \<lparr>items = [quote_item.truncate (form_row 1 3 (1 / 4))], App_totalAmount = Num 0,
       App_commissionAmount = Num 0\<rparr>)
     = Num (1351079888211149 / 18014398509481984)
   \<and> \<bar>1351079888211149 / 18014398509481984 - 3 / 4 / 10\<bar> \<le> \<bar>3 / 4 / 10 :: rat\<bar> / 2 ^ 52
   \<and> commissionAmount (CreateQuote_effect
      \<lparr>quoteItems = [], totalAmount = Num 7, commissionAmount = Num 7\<rparr>) = Num 0
   \<and> App_commissionAmount (App_CreateQuote_effect
      \<lparr>items = [], App_totalAmount = Num 7, App_commissionAmount = Num 7\<rparr>) = Num 0"
proof -
  let ?st = "\<lparr>quoteItems = [form_row 1 1 (1 / 4)], totalAmount = Num 0,
       commissionAmount = Num 0\<rparr>"
  let ?st' = "\<lparr>items = [quote_item.truncate (form_row 1 3 (1 / 4))], App_totalAmount = Num 0,
       App_commissionAmount = Num 0\<rparr>"
  let ?none = "\<lparr>quoteItems = [], totalAmount = Num 7, commissionAmount = Num 7\<rparr>"
  let ?none' = "\<lparr>items = [], App_totalAmount = Num 7, App_commissionAmount = Num 7\<rparr>"
  have t: "totalAmount (CreateQuote_effect ?st) = Num (1 / 4)"
    by (simp add: CreateQuote_effect_total CreateQuote_total_def form_row_def binary64_values)
  have t': "App_totalAmount (App_CreateQuote_effect ?st') = Num (3 / 4)"
    by (simp add: App_CreateQuote_effect_total App_CreateQuote_total_def form_row_def
        quote_item.truncate_def binary64_values)
  have t0: "totalAmount (CreateQuote_effect ?none) = Num 0"
    by (simp add: CreateQuote_effect_total CreateQuote_total_def)
  have t0': "App_totalAmount (App_CreateQuote_effect ?none') = Num 0"
    by (simp add: App_CreateQuote_effect_total App_CreateQuote_total_def)
  have lo: "(2::rat) powi (- 1000) \<le> 2 powi (- 2)" and hi: "(2::rat) powi 0 \<le> 2 powi 1000"
    by (rule power_int_increasing; simp)+
  have r: "\<bar>1 / 4 :: rat\<bar> = 2 powi (- 2)" "2 powi (- 2) \<le> \<bar>3 / 4 :: rat\<bar>"
    "\<bar>1 / 4 :: rat\<bar> \<le> 2 powi 0" "\<bar>3 / 4 :: rat\<bar> \<le> 2 powi 0"
    by (simp_all add: power_int_minus)
  note T = commission_is_total_times_tenth [where st = ?st and t = "1 / 4" and st' = ?st'
      and t' = "3 / 4"]
  note T0 = commission_is_total_times_tenth [where st = ?none and t = 0 and st' = ?none'
      and t' = 0]
  have c: "commissionAmount (CreateQuote_effect ?st) = Num (tenth / 4)"
    using T t by (simp add: binary64_values)
  have c': "App_commissionAmount (App_CreateQuote_effect ?st')
      = Num (1351079888211149 / 18014398509481984)"
    using T t' by (simp add: binary64_values)
  have range: "2 powi (- 1000) \<le> \<bar>1 / 4 :: rat\<bar>" "\<bar>1 / 4 :: rat\<bar> \<le> 2 powi 1000"
    "2 powi (- 1000) \<le> \<bar>3 / 4 :: rat\<bar>" "\<bar>3 / 4 :: rat\<bar> \<le> 2 powi 1000"
    using lo hi r by linarith+
  from T t range(1,2)
  have "\<exists>c. commissionAmount (CreateQuote_effect ?st) = Num c
      \<and> \<bar>c - 1 / 4 / 10\<bar> \<le> \<bar>1 / 4 / 10\<bar> / 2 ^ 52"
    by blast
  then obtain x where x: "commissionAmount (CreateQuote_effect ?st) = Num x"
    and ex: "\<bar>x - 1 / 4 / 10\<bar> \<le> \<bar>1 / 4 / 10\<bar> / 2 ^ 52"
    by blast
  from x c have "x = tenth / 4" by simp
  with ex have e: "\<bar>tenth / 4 - 1 / 4 / 10\<bar> \<le> \<bar>1 / 4 / 10\<bar> / 2 ^ 52"
    by (simp only:)
  from T t' range(3,4)
  have "\<exists>c. App_commissionAmount (App_CreateQuote_effect ?st') = Num c
      \<and> \<bar>c - 3 / 4 / 10\<bar> \<le> \<bar>3 / 4 / 10\<bar> / 2 ^ 52"
    by blast
  then obtain x' where x': "App_commissionAmount (App_CreateQuote_effect ?st') = Num x'"
    and ex': "\<bar>x' - 3 / 4 / 10\<bar> \<le> \<bar>3 / 4 / 10\<bar> / 2 ^ 52"
    by blast
  from x' c' have "x' = 1351079888211149 / 18014398509481984" by simp
  with ex' have e': "\<bar>1351079888211149 / 18014398509481984 - 3 / 4 / 10\<bar>
      \<le> \<bar>3 / 4 / 10 :: rat\<bar> / 2 ^ 52"
    by (simp only:)
  from T0 t0 have c0: "commissionAmount (CreateQuote_effect ?none) = Num 0" by blast
  from T0 t0' have c0': "App_commissionAmount (App_CreateQuote_effect ?none') = Num 0" by blast
  from t c e t' c' e' c0 c0' show ?thesis by (simp only: simp_thms)
qed

text \<open>
  C2, as stated, with the rounding rule of its example: the commission is 10 percent of
  the total rounded half up to two decimals. One row of cost 0.25 on the t24 page (whose
  cost field steps by 0.01) gives the commission \<open>0.25 * 0.1\<close>, which prints as
  \<open>0.025\<close>, and the rule gives the double nearest to 0.03.
\<close>

theorem commission_rounding_counterexample:
  "commissionAmount (CreateQuote_effect
      \<lparr>quoteItems = [form_row 1 1 (1 / 4)], totalAmount = Num 0, commissionAmount = Num 0\<rparr>)
   \<noteq> jround_2dp (jmul (totalAmount (CreateQuote_effect
      \<lparr>quoteItems = [form_row 1 1 (1 / 4)], totalAmount = Num 0, commissionAmount = Num 0\<rparr>))
      (Num tenth))"
proof -
  let ?st = "\<lparr>quoteItems = [form_row 1 1 (1 / 4)], totalAmount = Num 0,
       commissionAmount = Num 0\<rparr>"
  have t: "totalAmount (CreateQuote_effect ?st) = Num (1 / 4)"
    by (simp add: CreateQuote_effect_total CreateQuote_total_def form_row_def binary64_values)
  have c: "commissionAmount (CreateQuote_effect ?st) = Num (tenth / 4)"
    by (simp add: CreateQuote_effect_commission CreateQuote_total_def form_row_def
        binary64_values)
  have p: "jmul (Num (1 / 4)) (Num tenth) = Num (tenth / 4)"
    by (simp add: binary64_values)
  have "round_half_up_2dp (tenth / 4) = 3 / 100"
    by (simp add: round_half_up_2dp_def tenth_def)
  then have r: "jround_2dp (Num (tenth / 4)) = Num (8646911284551352 / 288230376151711744)"
    by (simp only: jround_2dp.simps fl_3_hundredths)
  have "tenth / 4 \<noteq> 8646911284551352 / 288230376151711744"
    by (simp add: tenth_def)
  then show ?thesis
    by (simp only: t c p r number.inject not_False_eq_True)
qed

section \<open>The partner's view of a lead\<close>

lemma block_titles_append [simp]:
  "block_titles (xs @ ys) = block_titles xs @ block_titles ys"
  by (induction xs rule: block_titles.induct) simp_all

text \<open>
  C10. For a lead whose status is none of accepted, quoted and approved, the details
  modal shows no customer, address or details block: its only text blocks are the summary
  and the status, and the whole view stays the same when the customer's name, email and
  phone, the address, city, postal code and region, and the details of the lead are
  replaced by anything else.
\<close>

theorem details_modal_hides_customer:
  assumes "status l \<noteq> ''accepted''" and "status l \<noteq> ''quoted''" and "status l \<noteq> ''approved''"
  shows "details_modal
           (l\<lparr>customer_name := n, customer_email := e, customer_phone := p, address := a,
              city := c, postal_code := z, region := r, details := d\<rparr>)
         = details_modal l
       \<and> render_details
           (st\<lparr>leadDetails := Some
              (l\<lparr>customer_name := n, customer_email := e, customer_phone := p, address := a,
                 city := c, postal_code := z, region := r, details := d\<rparr>)\<rparr>)
         = render_details (st\<lparr>leadDetails := Some l\<rparr>)
       \<and> block_titles (details_modal l) = [''Summary'', ''Status'']"
  using assms by (simp add: details_modal_def render_details_def)

theorem details_modal_hides_customer_witness:
  "details_modal
     ((assigned_lead 3)
        \<lparr>customer_name := ''X'', customer_email := ''x@y'', customer_phone := ''0'',
         address := ''A'', city := ''C'', postal_code := ''Z'', region := ''R'',
         details := ''D''\<rparr>)
   = details_modal (assigned_lead 3)
   \<and> block_titles (details_modal (assigned_lead 3)) = [''Summary'', ''Status'']"
proof -
  have "status (assigned_lead 3) \<noteq> ''accepted''" and "status (assigned_lead 3) \<noteq> ''quoted''"
    and "status (assigned_lead 3) \<noteq> ''approved''"
    by (simp_all add: example_lead_def assigned_lead_def)
  from details_modal_hides_customer [OF this] show ?thesis by simp
qed

text \<open>
  For comparison, an accepted lead: the three blocks are there.
\<close>

lemma details_modal_accepted_blocks:
  "status l = ''accepted'' \<Longrightarrow>
   block_titles (details_modal l) = [''Summary'', ''Customer'', ''Address'', ''Details'', ''Status'']"
  by (simp add: details_modal_def)

section \<open>Expiry on the partner's page\<close>

text \<open>
  The page never reads \<open>expires_at\<close>: the actions of a row and the details modal do not
  depend on it, and Accept and Reject are offered exactly when the status is \<open>assigned\<close>.
  \<open>acceptLead\<close> and \<open>rejectLead\<close> do what the server's answer says: a request that
  succeeded marks the lead in the page's list, one that failed leaves the page's state as
  it was but for the error message.
\<close>

lemma partner_actions_ignore_expiry:
  "row_actions (l\<lparr>expires_at := e\<rparr>) = row_actions l
   \<and> details_modal (l\<lparr>expires_at := e\<rparr>) = details_modal l
   \<and> (Accept (lead_id l) \<in> set (row_actions l)) = (status l = ''assigned'')
   \<and> (Reject (lead_id l) \<in> set (row_actions l)) = (status l = ''assigned'')"
  by (simp add: row_actions_def details_modal_def)

lemma partner_handlers_follow_server:
  "leads (acceptLead True i st)
     = map (\<lambda>lead. if lead_id lead = i then lead\<lparr>status := ''accepted''\<rparr> else lead) (leads st)
   \<and> leads (rejectLead True i st)
       = map (\<lambda>lead. if lead_id lead = i then lead\<lparr>status := ''rejected''\<rparr> else lead) (leads st)
   \<and> acceptLead False i st = st\<lparr>error := Some ''Failed to accept lead''\<rparr>
   \<and> rejectLead False i st = st\<lparr>error := Some ''Failed to reject lead''\<rparr>"
  by (simp add: acceptLead_def rejectLead_def closeDetailsModal_def Let_def
      split: option.split)


section \<open>The customer's access token\<close>

text \<open>
  C6, as the pages have it. \<open>verifyCustomerAccessToken\<close> never throws: it returns the body
  of the server's answer when the request succeeds and \<open>null\<close> when the request fails for
  any reason. \<open>handleSubmit\<close>, given the property \<open>onLoginSuccess\<close>, calls it exactly when
  the request succeeded with a body whose \<open>valid\<close> holds, with the two keys of that body;
  mounted without the property it calls nothing; and after a failed request nothing is
  called, property or not, and the error message is set.
\<close>

theorem verify_fails_closed:
  "fst (verifyCustomerAccessToken axios tok st)
     = (case axios (verify_token_request tok) of Resolved data \<Rightarrow> data | Rejected \<Rightarrow> None)
   \<and> (fst (handleSubmit axios (Some (f :: nat option \<Rightarrow> nat option \<Rightarrow> 'r)) tok st) = Some y)
     = (\<exists>r. axios (verify_token_request tok) = Resolved (Some r) \<and> valid r
            \<and> y = f (customer_id r) (quote_id r))
   \<and> fst (handleSubmit axios (None :: (nat option \<Rightarrow> nat option \<Rightarrow> 'r) option) tok st)
     = None
   \<and> (axios (verify_token_request tok) = Rejected \<longrightarrow>
        fst (handleSubmit axios (g :: (nat option \<Rightarrow> nat option \<Rightarrow> 'r) option) tok st) = None
        \<and> portal_error (snd (handleSubmit axios g tok st))
            = Some ''Failed to verify customer access token'')"
  by (auto simp add: verifyCustomerAccessToken_def handleSubmit_def Let_def
      split: response.splits option.splits)

theorem verify_fails_closed_witness:
  "fst (handleSubmit (\<lambda>r. Rejected)
        (Some (Pair :: nat option \<Rightarrow> nat option \<Rightarrow> nat option \<times> nat option))
        ''tok'' empty_portal) = None
   \<and> portal_error (snd (handleSubmit (\<lambda>r. Rejected)
        (Some (Pair :: nat option \<Rightarrow> nat option \<Rightarrow> nat option \<times> nat option))
        ''tok'' empty_portal))
       = Some ''Failed to verify customer access token''
   \<and> fst (handleSubmit
        (\<lambda>r. Resolved (Some \<lparr>valid = True, customer_id = Some 3, quote_id = Some 9\<rparr>))
        (Some Pair) ''tok'' empty_portal) = Some (Some 3, Some 9)
   \<and> fst (handleSubmit
        (\<lambda>r. Resolved (Some \<lparr>valid = True, customer_id = Some 3, quote_id = Some 9\<rparr>))
        (None :: (nat option \<Rightarrow> nat option \<Rightarrow> nat option \<times> nat option) option)
        ''tok'' empty_portal) = None"
proof -
  let ?ok = "\<lambda>r :: request.
      Resolved (Some \<lparr>valid = True, customer_id = Some (3 :: nat), quote_id = Some (9 :: nat)\<rparr>)"
  let ?no = "\<lambda>r :: request. Rejected :: verify_data option response"
  let ?f = "Pair :: nat option \<Rightarrow> nat option \<Rightarrow> nat option \<times> nat option"
  have "fst (handleSubmit ?no (Some ?f) ''tok'' empty_portal) = None
      \<and> portal_error (snd (handleSubmit ?no (Some ?f) ''tok'' empty_portal))
          = Some ''Failed to verify customer access token''"
    using verify_fails_closed [where axios = ?no and tok = "''tok''" and st = empty_portal
        and g = "Some ?f" and f = ?f and y = "(Some 3, Some 9)"]
    by simp
  moreover have "fst (handleSubmit ?ok (Some ?f) ''tok'' empty_portal) = Some (Some 3, Some 9)"
    using verify_fails_closed [where axios = ?ok and tok = "''tok''" and st = empty_portal
        and g = "Some ?f" and f = ?f and y = "(Some 3, Some 9)"]
    by simp
  moreover have "fst (handleSubmit ?ok
        (None :: (nat option \<Rightarrow> nat option \<Rightarrow> nat option \<times> nat option) option)
        ''tok'' empty_portal) = None"
    using verify_fails_closed [where axios = ?ok and tok = "''tok''" and st = empty_portal
        and g = "Some ?f" and f = ?f and y = "(Some 3, Some 9)"]
    by simp
  ultimately show ?thesis by simp
qed

text \<open>
  C6, as stated: the result always has the shape (valid, customer_id, quote_id), with
  \<open>valid = false\<close> after an error. When the request fails the result is \<open>null\<close>.
\<close>

theorem verify_rejected_returns_null:
  "fst (verifyCustomerAccessToken (\<lambda>r. Rejected) ''tok'' empty_portal) = None"
  by (simp add: verifyCustomerAccessToken_def Let_def)

section \<open>Requests of the customer portal\<close>

text \<open>
  Without a \<open>token\<close> in the authentication context \<open>updateQuoteStatus\<close> sends nothing and
  changes nothing; with one, the request carries it as a bearer credential.
\<close>

lemma updateQuoteStatus_without_token:
  "updateQuoteStatus None axios quoteId s feedback st = (None, st)"
  by (simp add: updateQuoteStatus_def)

lemma quote_status_request_credential:
  "authorization (quote_status_request t quoteId s feedback) = Some (''Bearer '' @ t)
   \<and> authorization (verify_token_request a) = None"
  by (simp add: quote_status_request_def verify_token_request_def)

section \<open>Assigning a lead\<close>

text \<open>
  The administrator's page offers Assign exactly on a new lead, and \<open>handleAssign\<close> writes
  the partner and the status \<open>assigned\<close> into its copy of the lead once the server has
  accepted the request; the two time stamps are the server's to set.
\<close>

lemma admin_assign_offered_iff_new:
  "(Assign (lead_id l) \<in> set (admin_row_actions l)) = (status l = ''new'')"
  by (simp add: admin_row_actions_def)

lemma handleAssign_outcomes:
  "selectedLead st = Some sel \<Longrightarrow> selectedPartner st = Some p \<Longrightarrow>
   admin_leads (handleAssign True st)
     = map (\<lambda>lead. if lead_id lead = lead_id sel
                    then lead\<lparr>assigned_partner_id := Some p, status := ''assigned''\<rparr> else lead)
         (admin_leads st)
   \<and> handleAssign False st = st\<lparr>admin_error := Some ''Failed to assign lead''\<rparr>"
  by (simp add: handleAssign_def closeAssignModal_def)

text \<open>
  C3. \<open>assign\<close> fails with \<open>NotFoundError\<close> when the lead or the partner is absent, and
  with \<open>InvalidStateError\<close> when the lead is not new; both leave the store as it was. On a
  new lead it succeeds, and the lead it returns and stores has the partner as
  \<open>assigned_partner_id\<close>, the status \<open>assigned\<close>, \<open>assigned_at\<close> the current time and
  \<open>expires_at\<close> the current time plus \<open>LEAD_EXPIRY_HOURS\<close>. It succeeds only on a lead
  that is new.
\<close>

theorem assign_spec:
  "(store leadId = None \<or> partnerId \<notin> partners \<longrightarrow>
      assign H now partners store leadId partnerId = (Inl NotFoundError, store))
   \<and> (store leadId = Some l \<and> partnerId \<in> partners \<and> status l \<noteq> NEW \<longrightarrow>
      assign H now partners store leadId partnerId = (Inl InvalidStateError, store))
   \<and> (store leadId = Some l \<and> partnerId \<in> partners \<and> status l = NEW \<longrightarrow>
      assign H now partners store leadId partnerId
        = (Inr (l\<lparr>assigned_partner_id := Some partnerId, status := ASSIGNED,
                  assigned_at := Some now, expires_at := Some (now + H)\<rparr>),
           store(leadId \<mapsto> l\<lparr>assigned_partner_id := Some partnerId, status := ASSIGNED,
                  assigned_at := Some now, expires_at := Some (now + H)\<rparr>)))
   \<and> (fst (assign H now partners store leadId partnerId) = Inr l' \<longrightarrow>
      (\<exists>l0. store leadId = Some l0 \<and> status l0 = NEW \<and> partnerId \<in> partners))"
  by (auto simp add: assign_def Let_def split: option.splits if_splits)

theorem assign_spec_witness:
  "assign 48 100 {4} [3 \<mapsto> example_lead 3] 3 4
     = (Inr ((example_lead 3)
               \<lparr>assigned_partner_id := Some 4, status := ''assigned'',
                assigned_at := Some 100, expires_at := Some 148\<rparr>),
        [3 \<mapsto> (example_lead 3)
               \<lparr>assigned_partner_id := Some 4, status := ''assigned'',
                assigned_at := Some 100, expires_at := Some 148\<rparr>])
   \<and> assign 48 100 {4} [3 \<mapsto> assigned_lead 3] 3 4
     = (Inl InvalidStateError, [3 \<mapsto> assigned_lead 3])
   \<and> assign 48 100 {4} [3 \<mapsto> example_lead 3] 2 4
     = (Inl NotFoundError, [3 \<mapsto> example_lead 3])
   \<and> assign 48 100 {4} [3 \<mapsto> example_lead 3] 3 5
     = (Inl NotFoundError, [3 \<mapsto> example_lead 3])"
proof -
  let ?new = "example_lead 3"
  let ?old = "assigned_lead 3"
  have new: "status ?new = NEW" and old: "status ?old \<noteq> NEW"
    by (simp_all add: example_lead_def assigned_lead_def NEW_def)
  have "assign 48 100 {4} [3 \<mapsto> ?new] 3 4
     = (Inr (?new\<lparr>assigned_partner_id := Some 4, status := ASSIGNED,
                assigned_at := Some 100, expires_at := Some (100 + 48)\<rparr>),
        [3 \<mapsto> ?new\<lparr>assigned_partner_id := Some 4, status := ASSIGNED,
                assigned_at := Some 100, expires_at := Some (100 + 48)\<rparr>])"
    using assign_spec [where store = "[3 \<mapsto> ?new]" and leadId = 3 and partnerId = 4
        and partners = "{4}" and H = 48 and now = 100 and l = ?new] new
    by simp
  moreover have "assign 48 100 {4} [3 \<mapsto> ?old] 3 4 = (Inl InvalidStateError, [3 \<mapsto> ?old])"
    using assign_spec [where store = "[3 \<mapsto> ?old]" and leadId = 3 and partnerId = 4
        and partners = "{4}" and H = 48 and now = 100 and l = ?old] old
    by simp
  moreover have "assign 48 100 {4} [3 \<mapsto> ?new] 2 4 = (Inl NotFoundError, [3 \<mapsto> ?new])"
    using assign_spec [where store = "[3 \<mapsto> ?new]" and leadId = 2 and partnerId = 4
        and partners = "{4}" and H = 48 and now = 100]
    by simp
  moreover have "assign 48 100 {4} [3 \<mapsto> ?new] 3 5 = (Inl NotFoundError, [3 \<mapsto> ?new])"
    using assign_spec [where store = "[3 \<mapsto> ?new]" and leadId = 3 and partnerId = 5
        and partners = "{4}" and H = 48 and now = 100]
    by simp
  ultimately show ?thesis by (simp add: ASSIGNED_def)
qed

section \<open>Responding to a quote\<close>

text \<open>
  C5. On a quote that is already approved or declined, \<open>respond\<close> fails with
  \<open>InvalidStateError\<close> whatever the decision is, and the store, with the quote's status
  and response time, is as before. The quote page offers neither Approve nor Decline on
  such a quote, and \<open>updateQuoteStatus\<close>, answered by the endpoint, changes neither the
  current quote nor the list of quotes: it returns \<open>null\<close> and sets the error message.
\<close>

theorem respond_terminal_fails:
  assumes "store quoteId = Some q"
    and "q_status q = ''approved'' \<or> q_status q = ''declined''"
    and "t \<noteq> []"
  shows "respond now store quoteId decision feedback = (Inl InvalidStateError, store)
    \<and> quote_actions q = []
    \<and> updateQuoteStatus (Some t)
         (\<lambda>r. fst (quote_status_endpoint now store quoteId decision feedback))
         quoteId decision feedback st
       = (None, st\<lparr>portal_loading := False,
                   portal_error := Some ''Failed to update quote status''\<rparr>)"
  using assms
  by (auto simp add: respond_def quote_status_endpoint_def quote_actions_def
      updateQuoteStatus_def Let_def)

theorem respond_terminal_fails_witness:
  "respond 95 [9 \<mapsto> example_quote 9 ''approved'' (Some 90)] 9 ''declined'' ''changed my mind''
     = (Inl InvalidStateError, [9 \<mapsto> example_quote 9 ''approved'' (Some 90)])
   \<and> quote_actions (example_quote 9 ''approved'' (Some 90)) = []
   \<and> updateQuoteStatus (Some ''staff.jwt'')
         (\<lambda>r. fst (quote_status_endpoint 95 [9 \<mapsto> example_quote 9 ''approved'' (Some 90)] 9
                  ''declined'' ''changed my mind''))
         9 ''declined'' ''changed my mind'' empty_portal
       = (None, empty_portal\<lparr>portal_loading := False,
                   portal_error := Some ''Failed to update quote status''\<rparr>)"
  by (rule respond_terminal_fails) (simp_all add: example_quote_def)

text \<open>
  A quote that is \<open>sent\<close> takes the decision, once.
\<close>

lemma respond_sent:
  "store quoteId = Some q \<Longrightarrow> q_status q = ''sent'' \<Longrightarrow>
   decision = ''approved'' \<or> decision = ''declined'' \<Longrightarrow>
   respond now store quoteId decision feedback
     = (Inr (q\<lparr>q_status := decision, q_customer_response_at := Some now\<rparr>),
        store(quoteId \<mapsto> q\<lparr>q_status := decision, q_customer_response_at := Some now\<rparr>))"
  by (auto simp add: respond_def Let_def)

end
